theory Spec2Isabelle
  imports Main
begin

section \<open>JavaScript values as server.js uses them\<close>

text \<open>
  A token slot of the program (\<^verbatim>\<open>this.accessToken\<close>, an environment variable, a field of a
  JSON object) holds a string, \<^verbatim>\<open>null\<close> or \<^verbatim>\<open>undefined\<close>. JavaScript treats \<^verbatim>\<open>null\<close>,
  \<^verbatim>\<open>undefined\<close> and the empty string as false in a condition and in \<^verbatim>\<open>a || b\<close>.
\<close>

datatype jsval = Undefined | Null | Str string

fun truthy :: "jsval \<Rightarrow> bool" where
  "truthy Undefined = False"
| "truthy Null = False"
| "truthy (Str s) = (s \<noteq> [])"

definition js_or :: "jsval \<Rightarrow> jsval \<Rightarrow> jsval" where
  "js_or a b = (if truthy a then a else b)"

text \<open>String conversion of a template literal, as in \<^verbatim>\<open>`Bearer ${this.accessToken}`\<close>.\<close>

fun to_string :: "jsval \<Rightarrow> string" where
  "to_string Undefined = ''undefined''"
| "to_string Null = ''null''"
| "to_string (Str s) = s"

text \<open>
  The time value of a \<^verbatim>\<open>Date\<close> is a number of milliseconds since the epoch, or NaN
  (an "Invalid Date"). \<^verbatim>\<open>new Date(t)\<close> clips: a time value beyond 8.64e15 ms in
  magnitude becomes NaN. Every comparison with NaN is false.
\<close>

datatype date = Valid int | Invalid

definition maxTime :: int where
  "maxTime = 8640000000000000"

definition new_Date :: "int \<Rightarrow> date" where
  "new_Date t = (if - maxTime \<le> t \<and> t \<le> maxTime then Valid t else Invalid)"

fun date_le :: "date \<Rightarrow> date \<Rightarrow> bool" where
  "date_le (Valid a) (Valid b) = (a \<le> b)"
| "date_le _ _ = False"

fun date_lt :: "date \<Rightarrow> date \<Rightarrow> bool" where
  "date_lt (Valid a) (Valid b) = (a < b)"
| "date_lt _ _ = False"

definition date_gt :: "date \<Rightarrow> date \<Rightarrow> bool" where
  "date_gt a b = date_lt b a"

text \<open>Decimal digits of a status code, for the text of an error message.\<close>

fun show_nat :: "nat \<Rightarrow> string" where
  "show_nat n =
     (if n < 10 then [char_of (48 + n)]
      else show_nat (n div 10) @ [char_of (48 + n mod 10)])"

declare show_nat.simps [simp del]

fun starts_with :: "string \<Rightarrow> string \<Rightarrow> bool" where
  "starts_with _ [] = True"
| "starts_with [] (p # ps) = False"
| "starts_with (c # cs) (p # ps) = (c = p \<and> starts_with cs ps)"

text \<open>\<^verbatim>\<open>hay.includes(needle)\<close>\<close>

fun str_includes :: "string \<Rightarrow> string \<Rightarrow> bool" where
  "str_includes [] needle = (needle = [])"
| "str_includes (c # cs) needle = (starts_with (c # cs) needle \<or> str_includes cs needle)"

section \<open>The host: environment, upstream, token file, clock\<close>

text \<open>
  What an upstream request carries, as far as the program chooses it: the refresh token in
  the query string of the refresh call, the \<^verbatim>\<open>Authorization\<close> header of an API call, the
  day bounds of the appointment search, the path of a contact.
\<close>

datatype request =
    RefreshReq string
  | SearchReq string int int
  | ContactReq string string

text \<open>One appointment of the search response, as far as the program reads it.\<close>

record appt_json =
  utc_start :: date
  utc_end :: date
  resources :: "string list option"
  contacts :: "jsval list option"
  title :: jsval

text \<open>
  A parsed JSON object of a response, as far as the program reads its fields. A field
  that is absent reads as \<^verbatim>\<open>undefined\<close> (\<open>None\<close> for \<open>expires_in\<close> and \<open>results\<close>).
  \<open>expires_in\<close> is a number of seconds, an integer.
\<close>

record json_body =
  access_token :: jsval
  token :: jsval
  refresh_token :: jsval
  expires_in :: "int option"
  results :: "appt_json list option"
  first_name :: jsval

text \<open>
  What \<^verbatim>\<open>response.json()\<close> makes of a body: a syntax error (with its message), the value
  \<^verbatim>\<open>null\<close> (reading a property of it throws a TypeError), or an object.
\<close>

datatype payload = NotJson string | JsonNull | JsonObj json_body

text \<open>
  \<^verbatim>\<open>fetch\<close> rejects (transport failure, with the error's message) or resolves to a response:
  its status, its body as text, and the body as \<^verbatim>\<open>json()\<close> reads it.
\<close>

datatype fetch_result = Rejected string | Response nat string payload

definition ok :: "nat \<Rightarrow> bool" where
  "ok st = (200 \<le> st \<and> st \<le> 299)"

text \<open>
  The record in \<^verbatim>\<open>tokens.json\<close>. The \<open>tokenExpiry\<close> field is represented by what
  \<^verbatim>\<open>tokens.tokenExpiry ? new Date(tokens.tokenExpiry) : null\<close> reads from it: \<open>None\<close> for
  a false value, otherwise the \<^verbatim>\<open>Date\<close> built from it. The ISO-8601 text that
  \<^verbatim>\<open>toISOString\<close> writes for a time value reads back as that time value.
\<close>

record persisted =
  p_accessToken :: jsval
  p_refreshToken :: jsval
  p_tokenExpiry :: "date option"

text \<open>
  The token file: \<open>Missing\<close> when \<^verbatim>\<open>fs.readFile\<close> rejects (no file, or not readable),
  \<open>Corrupt\<close> when \<^verbatim>\<open>JSON.parse\<close> throws on its text, otherwise the record it holds.
\<close>

datatype token_file = Missing | Corrupt | Tokens persisted

datatype error =
    NoRefreshToken
  | RefreshFailed nat string
  | FetchFailed string
  | JsonSyntax string
  | TypeErr string
  | RangeErr
  | WriteFailed string
  | Unauthorized
  | NoTokensAvailable

text \<open>
  The message of the TypeError thrown when a property of \<^verbatim>\<open>null\<close> or \<^verbatim>\<open>undefined\<close> is
  read.
\<close>

definition cannot_read :: "string \<Rightarrow> string \<Rightarrow> string" where
  "cannot_read what name =
     ''Cannot read properties of '' @ what @ '' (reading '' @ [CHR 0x27] @ name @ [CHR 0x27] @ '')''"

abbreviation null_property :: "string \<Rightarrow> string" where
  "null_property name \<equiv> cannot_read ''null'' name"

text \<open>\<^verbatim>\<open>error.message\<close>\<close>

fun message :: "error \<Rightarrow> string" where
  "message NoRefreshToken = ''No refresh token available''"
| "message (RefreshFailed st txt) = ''Failed to refresh token: '' @ show_nat st @ '' - '' @ txt"
| "message (FetchFailed m) = m"
| "message (JsonSyntax m) = m"
| "message (TypeErr m) = m"
| "message RangeErr = ''Invalid time value''"
| "message (WriteFailed m) = m"
| "message Unauthorized = ''401 Unauthorized - Token may have expired''"
| "message NoTokensAvailable =
     ''No tokens available. Please provide DAYLITE_ACCESS_TOKEN or DAYLITE_REFRESH_TOKEN in environment variables''"

text \<open>
  The host of one run: the two environment variables, the upstream (its answer to a
  request, given all requests so far, and the milliseconds the answer takes), the
  error with which \<^verbatim>\<open>fs.writeFile\<close> on the token file rejects, if it does, and the
  host's rendering of a time of day (\<^verbatim>\<open>toLocaleTimeString('en-US', ...)\<close>, which depends
  on its time zone and locale data).
\<close>

record host =
  DAYLITE_ACCESS_TOKEN :: jsval
  DAYLITE_REFRESH_TOKEN :: jsval
  upstream :: "request list \<Rightarrow> fetch_result \<times> nat"
  write_error :: "string option"
  toLocaleTimeString :: "date \<Rightarrow> string"

text \<open>What changes during a run: the clock (\<^verbatim>\<open>Date.now()\<close>), the token file, the requests sent.\<close>

record world =
  now :: int
  tokenFile :: token_file
  sent :: "request list"

definition fetch :: "host \<Rightarrow> world \<Rightarrow> request \<Rightarrow> fetch_result \<times> world" where
  "fetch h w req =
     (let (r, took) = upstream h (sent w @ [req])
      in (r, w\<lparr>now := now w + int took, sent := sent w @ [req]\<rparr>))"

section \<open>TokenManager\<close>

record TokenManager =
  accessToken :: jsval
  refreshToken :: jsval
  tokenExpiry :: "date option"

text \<open>The constructor.\<close>

definition new_TokenManager :: "host \<Rightarrow> TokenManager" where
  "new_TokenManager h =
     \<lparr>accessToken = Null,
      refreshToken = js_or (DAYLITE_REFRESH_TOKEN h) Null,
      tokenExpiry = None\<rparr>"

definition needsRefresh :: "int \<Rightarrow> TokenManager \<Rightarrow> bool" where
  "needsRefresh t s =
     (case tokenExpiry s of
        None \<Rightarrow> True
      | Some d \<Rightarrow> date_le d (new_Date (t + 5 * 60 * 1000)))"

text \<open>
  \<^verbatim>\<open>saveTokens\<close>: \<^verbatim>\<open>toISOString\<close> throws a RangeError on an Invalid Date, before anything
  is written.
\<close>

definition saveTokens :: "host \<Rightarrow> world \<Rightarrow> TokenManager \<Rightarrow> (error + unit) \<times> world" where
  "saveTokens h w s =
     (case tokenExpiry s of
        Some Invalid \<Rightarrow> (Inl RangeErr, w)
      | e \<Rightarrow>
          (case write_error h of
             None \<Rightarrow> (Inr (), w\<lparr>tokenFile := Tokens
                        \<lparr>p_accessToken = accessToken s,
                         p_refreshToken = refreshToken s,
                         p_tokenExpiry = e\<rparr>\<rparr>)
           | Some m \<Rightarrow> (Inl (WriteFailed m), w)))"

text \<open>
  \<^verbatim>\<open>const expiresIn = data.expires_in || 3600\<close>: the number 0 is false in JavaScript, as an
  absent field is.
\<close>

definition expiresIn :: "json_body \<Rightarrow> int" where
  "expiresIn d = (case expires_in d of None \<Rightarrow> 3600 | Some n \<Rightarrow> if n = 0 then 3600 else n)"

text \<open>
  \<^verbatim>\<open>refreshAccessToken\<close>, in the two parts that its \<^verbatim>\<open>await fetch(...)\<close> separates. The
  part after the \<^verbatim>\<open>await\<close> reads \<^verbatim>\<open>this\<close> as it is when the response has arrived. The
  \<^verbatim>\<open>catch\<close> of the source logs and rethrows, so every error below is the method's error.
\<close>

definition refresh_settle ::
  "host \<Rightarrow> fetch_result \<Rightarrow> world \<Rightarrow> TokenManager \<Rightarrow> (error + unit) \<times> world \<times> TokenManager" where
  "refresh_settle h r w1 s =
     (case r of
        Rejected m \<Rightarrow> (Inl (FetchFailed m), w1, s)
      | Response st txt pl \<Rightarrow>
          if \<not> ok st then (Inl (RefreshFailed st txt), w1, s)
          else
            (case pl of
               NotJson m \<Rightarrow> (Inl (JsonSyntax m), w1, s)
             | JsonNull \<Rightarrow> (Inl (TypeErr (null_property ''access_token'')), w1, s)
             | JsonObj d \<Rightarrow>
                 let s1 = s\<lparr>accessToken := js_or (access_token d) (token d),
                            refreshToken := js_or (refresh_token d) (refreshToken s),
                            tokenExpiry := Some (new_Date (now w1 + expiresIn d * 1000))\<rparr>
                 in (case saveTokens h w1 s1 of
                       (Inl e, w2) \<Rightarrow> (Inl e, w2, s1)
                     | (Inr u, w2) \<Rightarrow> (Inr (), w2, s1))))"

definition refreshAccessToken ::
  "host \<Rightarrow> world \<Rightarrow> TokenManager \<Rightarrow> (error + unit) \<times> world \<times> TokenManager" where
  "refreshAccessToken h w s =
     (if \<not> truthy (refreshToken s) then (Inl NoRefreshToken, w, s)
      else
        case fetch h w (RefreshReq (to_string (refreshToken s))) of
          (r, w1) \<Rightarrow> refresh_settle h r w1 s)"

definition getValidToken ::
  "host \<Rightarrow> world \<Rightarrow> TokenManager \<Rightarrow> (error + string) \<times> world \<times> TokenManager" where
  "getValidToken h w s =
     (if needsRefresh (now w) s
      then (case refreshAccessToken h w s of
              (Inl e, w1, s1) \<Rightarrow> (Inl e, w1, s1)
            | (Inr u, w1, s1) \<Rightarrow> (Inr (''Bearer '' @ to_string (accessToken s1)), w1, s1))
      else (Inr (''Bearer '' @ to_string (accessToken s)), w, s))"

text \<open>The \<^verbatim>\<open>catch\<close> block of \<^verbatim>\<open>initialize\<close>.\<close>

definition initialize_catch ::
  "host \<Rightarrow> world \<Rightarrow> TokenManager \<Rightarrow> (error + unit) \<times> world \<times> TokenManager" where
  "initialize_catch h w s =
     (if truthy (DAYLITE_ACCESS_TOKEN h)
      then
        let s1 = s\<lparr>accessToken := DAYLITE_ACCESS_TOKEN h,
                   tokenExpiry := Some (new_Date (now w + 60 * 60 * 1000))\<rparr>
        in (case saveTokens h w s1 of
              (Inl e, w1) \<Rightarrow> (Inl e, w1, s1)
            | (Inr u, w1) \<Rightarrow> (Inr (), w1, s1))
      else if truthy (refreshToken s) then refreshAccessToken h w s
      else (Inl NoTokensAvailable, w, s))"

text \<open>
  The first statements of the \<^verbatim>\<open>try\<close> block of \<^verbatim>\<open>initialize\<close>: the fields read from the
  parsed token file.
\<close>

definition loadTokens :: "persisted \<Rightarrow> TokenManager \<Rightarrow> TokenManager" where
  "loadTokens p s =
     s\<lparr>accessToken := p_accessToken p,
       refreshToken := js_or (p_refreshToken p) (refreshToken s),
       tokenExpiry := p_tokenExpiry p\<rparr>"

definition initialize ::
  "host \<Rightarrow> world \<Rightarrow> TokenManager \<Rightarrow> (error + unit) \<times> world \<times> TokenManager" where
  "initialize h w s =
     (case tokenFile w of
        Missing \<Rightarrow> initialize_catch h w s
      | Corrupt \<Rightarrow> initialize_catch h w s
      | Tokens p \<Rightarrow>
          let s1 = loadTokens p s
          in if needsRefresh (now w) s1
             then (case refreshAccessToken h w s1 of
                     (Inl e, w2, s2) \<Rightarrow> initialize_catch h w2 s2
                   | (Inr u, w2, s2) \<Rightarrow> (Inr (), w2, s2))
             else (Inr (), w, s1))"

text \<open>
  \<^verbatim>\<open>startServer\<close>: the server listens when \<^verbatim>\<open>initialize\<close> returns, and the process exits
  with status 1 when it throws.
\<close>

datatype startup = Listening world TokenManager | Exited nat

definition startServer :: "host \<Rightarrow> world \<Rightarrow> startup" where
  "startServer h w =
     (case initialize h w (new_TokenManager h) of
        (Inl e, w1, s1) \<Rightarrow> Exited 1
      | (Inr u, w1, s1) \<Rightarrow> Listening w1 s1)"

section \<open>Authenticated requests and the appointment pipeline\<close>

type_synonym response = "nat \<times> string \<times> payload"

text \<open>
  \<^verbatim>\<open>authenticatedFetch(url, options)\<close>; \<open>mk\<close> builds the request from the
  \<^verbatim>\<open>Authorization\<close> header.
\<close>

definition authenticatedFetch ::
  "host \<Rightarrow> world \<Rightarrow> TokenManager \<Rightarrow> (string \<Rightarrow> request) \<Rightarrow>
     (error + response) \<times> world \<times> TokenManager" where
  "authenticatedFetch h w s mk =
     (case getValidToken h w s of
        (Inl e, w1, s1) \<Rightarrow> (Inl e, w1, s1)
      | (Inr tok, w1, s1) \<Rightarrow>
          (case fetch h w1 (mk tok) of
             (Rejected m, w2) \<Rightarrow> (Inl (FetchFailed m), w2, s1)
           | (Response st txt pl, w2) \<Rightarrow>
               if st = 401 then (Inl Unauthorized, w2, s1)
               else (Inr (st, txt, pl), w2, s1)))"

record appointment =
  start :: date
  end_time :: date
  names :: "string list"
  room :: string
  title_text :: jsval

text \<open>\<^verbatim>\<open>Array.prototype.join()\<close>, with its default separator.\<close>

fun join :: "string list \<Rightarrow> string" where
  "join [] = []"
| "join [x] = x"
| "join (x # y # ys) = x @ '','' @ join (y # ys)"

text \<open>
  The inner loop of \<^verbatim>\<open>getAppointmentsForToday\<close>: one element per entry of
  \<^verbatim>\<open>appt.contacts\<close>, namely the entry's \<^verbatim>\<open>contact\<close> field.
\<close>

fun contact_names ::
  "host \<Rightarrow> jsval list \<Rightarrow> world \<Rightarrow> TokenManager \<Rightarrow> string list \<Rightarrow>
     (error + string list) \<times> world \<times> TokenManager" where
  "contact_names h [] w s acc = (Inr acc, w, s)"
| "contact_names h (c # cs) w s acc =
     (if truthy c
      then (case authenticatedFetch h w s (ContactReq (to_string c)) of
              (Inl e, w1, s1) \<Rightarrow> (Inl e, w1, s1)
            | (Inr (st, txt, pl), w1, s1) \<Rightarrow>
                (case pl of
                   NotJson m \<Rightarrow> (Inl (JsonSyntax m), w1, s1)
                 | JsonNull \<Rightarrow> (Inl (TypeErr (null_property ''first_name'')), w1, s1)
                 | JsonObj d \<Rightarrow>
                     contact_names h cs w1 s1
                       (if truthy (first_name d) then acc @ [to_string (first_name d)] else acc)))
      else contact_names h cs w s acc)"

text \<open>The loop over \<^verbatim>\<open>results\<close>.\<close>

fun collect ::
  "host \<Rightarrow> appt_json list \<Rightarrow> world \<Rightarrow> TokenManager \<Rightarrow> appointment list \<Rightarrow>
     (error + appointment list) \<times> world \<times> TokenManager" where
  "collect h [] w s acc = (Inr acc, w, s)"
| "collect h (a # as) w s acc =
     (case resources a of
        None \<Rightarrow>
          (Inl (TypeErr (cannot_read ''undefined'' ''join'')), w, s)
      | Some rs \<Rightarrow>
          let room = (if join rs = ''/v1/resources/2015'' then ''Large'' else ''Small'')
          in (case contact_names h (case contacts a of None \<Rightarrow> [] | Some cs \<Rightarrow> cs) w s [] of
                (Inl e, w1, s1) \<Rightarrow> (Inl e, w1, s1)
              | (Inr ns, w1, s1) \<Rightarrow>
                  collect h as w1 s1
                    (acc @ [\<lparr>start = utc_start a, end_time = utc_end a, names = ns,
                             room = room, title_text = js_or (title a) (Str [])\<rparr>])))"

definition getAppointmentsForToday ::
  "host \<Rightarrow> world \<Rightarrow> TokenManager \<Rightarrow> (error + appointment list) \<times> world \<times> TokenManager" where
  "getAppointmentsForToday h w s =
     (let startOfDay = now w - now w mod 86400000;
          endOfDay = startOfDay + 86399999
      in case authenticatedFetch h w s (\<lambda>tok. SearchReq tok startOfDay endOfDay) of
           (Inl e, w1, s1) \<Rightarrow> (Inl e, w1, s1)
         | (Inr (st, txt, pl), w1, s1) \<Rightarrow>
             (case pl of
                NotJson m \<Rightarrow> (Inl (JsonSyntax m), w1, s1)
              | JsonNull \<Rightarrow> (Inl (TypeErr (null_property ''results'')), w1, s1)
              | JsonObj d \<Rightarrow>
                  collect h (case results d of None \<Rightarrow> [] | Some rs \<Rightarrow> rs) w1 s1 []))"

section \<open>The relevance filter\<close>

record shown = appointment +
  status :: string
  minutesUntilStart :: "int option"
  formattedStartTime :: string
  formattedEndTime :: string

text \<open>
  The two tests of the \<^verbatim>\<open>filter\<close> callback, at the clock reading \<open>t\<close> of
  \<^verbatim>\<open>const now = new Date()\<close>.
\<close>

definition startsWithin30Min :: "int \<Rightarrow> appointment \<Rightarrow> bool" where
  "startsWithin30Min t a =
     (date_gt (start a) (Valid t) \<and> date_le (start a) (new_Date (t + 30 * 60 * 1000)))"

definition currentlyInProgress :: "int \<Rightarrow> appointment \<Rightarrow> bool" where
  "currentlyInProgress t a = (date_le (start a) (Valid t) \<and> date_gt (end_time a) (Valid t))"

text \<open>
  The \<^verbatim>\<open>map\<close> callback, at its own clock reading \<open>t\<close>. \<^verbatim>\<open>Math.round\<close> rounds a half
  upwards; the difference of an Invalid Date is NaN (\<open>None\<close>).
\<close>

definition decorate :: "(date \<Rightarrow> string) \<Rightarrow> int \<Rightarrow> appointment \<Rightarrow> shown" where
  "decorate fmt t a =
     (let in_progress = currentlyInProgress t a
      in appointment.extend a
           (shown.fields
              (if in_progress then ''in-progress'' else ''upcoming'')
              (if in_progress then Some 0
               else (case start a of
                       Valid st \<Rightarrow> Some ((st - t + 30000) div 60000)
                     | Invalid \<Rightarrow> None))
              (fmt (start a))
              (fmt (end_time a))))"

text \<open>
  \<^verbatim>\<open>filterRelevantAppointments\<close>: \<open>t\<close> is the reading of the clock before the filter,
  \<open>later i\<close> the reading in the \<^verbatim>\<open>map\<close> callback of the \<open>i\<close>-th appointment kept.
\<close>

definition filterRelevantAppointments ::
  "(date \<Rightarrow> string) \<Rightarrow> int \<Rightarrow> (nat \<Rightarrow> int) \<Rightarrow> appointment list \<Rightarrow> shown list" where
  "filterRelevantAppointments fmt t later appointments =
     map (\<lambda>(i, a). decorate fmt (later i) a)
       (enumerate 0 (filter (\<lambda>a. startsWithin30Min t a \<or> currentlyInProgress t a) appointments))"

section \<open>The route /api/appointments\<close>

datatype http_response = Json200 "shown list" | Json500

text \<open>
  The handler of \<^verbatim>\<open>GET /api/appointments\<close>. The filter runs without waiting, so the
  clock of the model does not move during it.
\<close>

definition api_appointments ::
  "host \<Rightarrow> world \<Rightarrow> TokenManager \<Rightarrow> http_response \<times> world \<times> TokenManager" where
  "api_appointments h w s =
     (case getAppointmentsForToday h w s of
        (Inr appts, w1, s1) \<Rightarrow>
          (Json200 (filterRelevantAppointments (toLocaleTimeString h) (now w1) (\<lambda>i. now w1) appts),
           w1, s1)
      | (Inl e, w1, s1) \<Rightarrow>
          if message e \<noteq> [] \<and> str_includes (message e) ''401''
          then (case refreshAccessToken h w1 s1 of
                  (Inl e2, w2, s2) \<Rightarrow> (Json500, w2, s2)
                | (Inr u, w2, s2) \<Rightarrow>
                    (case getAppointmentsForToday h w2 s2 of
                       (Inl e3, w3, s3) \<Rightarrow> (Json500, w3, s3)
                     | (Inr appts, w3, s3) \<Rightarrow>
                         (Json200 (filterRelevantAppointments (toLocaleTimeString h) (now w3)
                                     (\<lambda>i. now w3) appts),
                          w3, s3)))
          else (Json500, w1, s1))"

section \<open>Calls that overlap\<close>

text \<open>
  JavaScript runs one piece of code at a time and changes over only at an \<^verbatim>\<open>await\<close>. A call
  of \<^verbatim>\<open>getValidToken\<close> that needs a refresh waits three times: for \<^verbatim>\<open>fetch\<close>, for the body
  of the response (\<^verbatim>\<open>response.text()\<close> or \<^verbatim>\<open>response.json()\<close>), and for \<^verbatim>\<open>fs.writeFile\<close>
  inside \<^verbatim>\<open>saveTokens\<close>. Between two waits it runs without interruption, and while it
  waits other calls run. A call is therefore in one of four places:
  \<^item> \<open>AwaitFetch r due\<close>: the refresh request is sent; the answer \<open>r\<close> is there at time \<open>due\<close>;
  \<^item> \<open>AwaitBody st body pl\<close>: the response is there, its body is being read;
  \<^item> \<open>AwaitWrite p\<close>: the three assignments to \<^verbatim>\<open>this\<close> are done, and the record \<open>p\<close>,
    built from \<^verbatim>\<open>this\<close> in the same synchronous block, is being written;
  \<^item> \<open>Finished res\<close>: the caller has its token or its error.
\<close>

datatype call =
    AwaitFetch fetch_result int
  | AwaitBody nat string payload
  | AwaitWrite persisted
  | Finished "error + string"

text \<open>The \<open>i\<close>-th call made is the \<open>i\<close>-th entry of \<open>calls\<close>.\<close>

record server =
  manager :: TokenManager
  wld :: world
  calls :: "call list"

text \<open>
  What can happen: a new call is made; the response to the refresh request of call \<open>i\<close>
  arrives; the body of its response has been read; its write has ended. An event for a
  call that is not waiting for it changes nothing.
\<close>

datatype event = Call | Arrive nat | Body nat | Written nat

text \<open>
  A new call: \<^verbatim>\<open>getValidToken\<close> up to the \<^verbatim>\<open>await fetch(...)\<close> of \<^verbatim>\<open>refreshAccessToken\<close>, or
  to its end when no refresh is needed or no refresh token is held.
\<close>

definition on_call :: "host \<Rightarrow> server \<Rightarrow> server" where
  "on_call h sv =
     (let s = manager sv; w = wld sv
      in if needsRefresh (now w) s
         then (if \<not> truthy (refreshToken s)
               then sv\<lparr>calls := calls sv @ [Finished (Inl NoRefreshToken)]\<rparr>
               else
                 let req = RefreshReq (to_string (refreshToken s));
                     (r, took) = upstream h (sent w @ [req])
                 in sv\<lparr>wld := w\<lparr>sent := sent w @ [req]\<rparr>,
                        calls := calls sv @ [AwaitFetch r (now w + int took)]\<rparr>)
         else sv\<lparr>calls := calls sv @ [Finished (Inr (''Bearer '' @ to_string (accessToken s)))]\<rparr>)"

text \<open>\<^verbatim>\<open>fetch\<close> settles: a rejection is rethrown to the caller, a response has its body read.\<close>

definition on_arrive :: "server \<Rightarrow> nat \<Rightarrow> fetch_result \<Rightarrow> int \<Rightarrow> server" where
  "on_arrive sv i r due =
     (let w1 = (wld sv)\<lparr>now := max (now (wld sv)) due\<rparr>
      in case r of
           Rejected m \<Rightarrow> sv\<lparr>wld := w1, calls := (calls sv)[i := Finished (Inl (FetchFailed m))]\<rparr>
         | Response st body pl \<Rightarrow> sv\<lparr>wld := w1, calls := (calls sv)[i := AwaitBody st body pl]\<rparr>)"

text \<open>
  The body has been read: the error of a status that is not 2xx, or of a body that is not
  a JSON object, is thrown to the caller; otherwise the three assignments are made, from
  \<^verbatim>\<open>this\<close> and the clock as they are now, and \<^verbatim>\<open>saveTokens\<close> builds its record and starts
  the write (or throws, on an Invalid Date).
\<close>

definition on_body :: "server \<Rightarrow> nat \<Rightarrow> nat \<Rightarrow> string \<Rightarrow> payload \<Rightarrow> server" where
  "on_body sv i st body pl =
     (if \<not> ok st then sv\<lparr>calls := (calls sv)[i := Finished (Inl (RefreshFailed st body))]\<rparr>
      else
        (case pl of
           NotJson m \<Rightarrow> sv\<lparr>calls := (calls sv)[i := Finished (Inl (JsonSyntax m))]\<rparr>
         | JsonNull \<Rightarrow>
             sv\<lparr>calls := (calls sv)[i := Finished (Inl (TypeErr (null_property ''access_token'')))]\<rparr>
         | JsonObj d \<Rightarrow>
             let s = manager sv;
                 s1 = s\<lparr>accessToken := js_or (access_token d) (token d),
                        refreshToken := js_or (refresh_token d) (refreshToken s),
                        tokenExpiry := Some (new_Date (now (wld sv) + expiresIn d * 1000))\<rparr>
             in (case tokenExpiry s1 of
                   Some Invalid \<Rightarrow>
                     sv\<lparr>manager := s1, calls := (calls sv)[i := Finished (Inl RangeErr)]\<rparr>
                 | e \<Rightarrow>
                     sv\<lparr>manager := s1,
                        calls := (calls sv)[i := AwaitWrite
                                   \<lparr>p_accessToken = accessToken s1,
                                    p_refreshToken = refreshToken s1,
                                    p_tokenExpiry = e\<rparr>]\<rparr>)))"

text \<open>
  The write has ended: \<^verbatim>\<open>refreshAccessToken\<close> returns, and \<^verbatim>\<open>getValidToken\<close> reads
  \<^verbatim>\<open>this.accessToken\<close> as it is now; or the error of the write is thrown to the caller.
\<close>

definition on_written :: "host \<Rightarrow> server \<Rightarrow> nat \<Rightarrow> persisted \<Rightarrow> server" where
  "on_written h sv i p =
     (case write_error h of
        None \<Rightarrow>
          sv\<lparr>wld := (wld sv)\<lparr>tokenFile := Tokens p\<rparr>,
             calls := (calls sv)[i := Finished (Inr (''Bearer '' @ to_string (accessToken (manager sv))))]\<rparr>
      | Some m \<Rightarrow> sv\<lparr>calls := (calls sv)[i := Finished (Inl (WriteFailed m))]\<rparr>)"

fun step :: "host \<Rightarrow> server \<Rightarrow> event \<Rightarrow> server" where
  "step h sv Call = on_call h sv"
| "step h sv (Arrive i) =
     (if i < length (calls sv)
      then (case calls sv ! i of AwaitFetch r due \<Rightarrow> on_arrive sv i r due | _ \<Rightarrow> sv)
      else sv)"
| "step h sv (Body i) =
     (if i < length (calls sv)
      then (case calls sv ! i of AwaitBody st body pl \<Rightarrow> on_body sv i st body pl | _ \<Rightarrow> sv)
      else sv)"
| "step h sv (Written i) =
     (if i < length (calls sv)
      then (case calls sv ! i of AwaitWrite p \<Rightarrow> on_written h sv i p | _ \<Rightarrow> sv)
      else sv)"

definition run :: "host \<Rightarrow> server \<Rightarrow> event list \<Rightarrow> server" where
  "run h sv evs = foldl (step h) sv evs"




section \<open>Notions used in the statements\<close>

text \<open>A refresh that the upstream refuses: the transport fails, or the status is not 2xx.\<close>

definition refused :: "fetch_result \<Rightarrow> bool" where
  "refused r = (case r of Rejected m \<Rightarrow> True | Response st body pl \<Rightarrow> \<not> ok st)"

text \<open>
  Relevance in the words of the specification: the appointment starts within the next 30
  minutes (strictly after \<open>t\<close>, at most 30 minutes later), or it is in progress (it has
  started by \<open>t\<close> and ends strictly after \<open>t\<close>). An Invalid Date is at no time.
\<close>

definition relevant :: "int \<Rightarrow> appointment \<Rightarrow> bool" where
  "relevant t a =
     (case start a of
        Invalid \<Rightarrow> False
      | Valid st \<Rightarrow>
          (t < st \<and> st \<le> t + 30 * 60 * 1000) \<or>
          (st \<le> t \<and> (case end_time a of Invalid \<Rightarrow> False | Valid en \<Rightarrow> t < en)))"

fun is_search :: "request \<Rightarrow> bool" where
  "is_search (SearchReq a d0 d1) = True"
| "is_search _ = False"

definition searches :: "world \<Rightarrow> nat" where
  "searches w = length (filter is_search (sent w))"

text \<open>A server on which no call is under way.\<close>

definition idle :: "TokenManager \<Rightarrow> world \<Rightarrow> server" where
  "idle s w = \<lparr>manager = s, wld = w, calls = []\<rparr>"

section \<open>Concrete hosts and states for the examples\<close>

text \<open>
  An upstream that answers the \<open>n\<close>-th request with the \<open>n\<close>-th entry of a script, and fails
  at the transport once the script is used up.
\<close>

definition scripted :: "(fetch_result \<times> nat) list \<Rightarrow> request list \<Rightarrow> fetch_result \<times> nat" where
  "scripted rs reqs =
     (if reqs \<noteq> [] \<and> length reqs \<le> length rs then rs ! (length reqs - 1)
      else (Rejected ''fetch failed'', 0))"

definition reply_down :: "fetch_result \<times> nat" where
  "reply_down = (Response 500 ''down'' (NotJson ''Unexpected token d''), 20)"

definition unauthorized_reply :: "fetch_result \<times> nat" where
  "unauthorized_reply = (Response 401 ''Unauthorized'' (NotJson ''Unexpected token U''), 20)"

definition token_reply :: "string \<Rightarrow> int option \<Rightarrow> fetch_result \<times> nat" where
  "token_reply a e =
     (Response 200 []
        (JsonObj \<lparr>access_token = Str a, token = Undefined, refresh_token = Undefined,
                  expires_in = e, results = None, first_name = Undefined\<rparr>), 20)"

definition search_reply :: "appt_json list \<Rightarrow> fetch_result \<times> nat" where
  "search_reply as =
     (Response 200 []
        (JsonObj \<lparr>access_token = Undefined, token = Undefined, refresh_token = Undefined,
                  expires_in = None, results = Some as, first_name = Undefined\<rparr>), 20)"

definition review :: appt_json where
  "review = \<lparr>utc_start = Valid 1700000600000, utc_end = Valid 1700004200000,
             resources = Some [''/v1/resources/2015''],
             contacts = Some [Str ''/v1/contacts/7''], title = Str ''Review''\<rparr>"

definition example_host :: "jsval \<Rightarrow> jsval \<Rightarrow> (request list \<Rightarrow> fetch_result \<times> nat) \<Rightarrow> host" where
  "example_host a r up =
     \<lparr>DAYLITE_ACCESS_TOKEN = a, DAYLITE_REFRESH_TOKEN = r, upstream = up,
      write_error = None, toLocaleTimeString = (\<lambda>d. [])\<rparr>"

text \<open>The environment supplies only a refresh token; the upstream answers 500 to everything.\<close>

definition host_down :: host where
  "host_down = example_host Undefined (Str ''r0'') (\<lambda>reqs. reply_down)"

text \<open>The environment supplies nothing.\<close>

definition host_bare :: host where
  "host_bare = example_host Undefined Undefined (\<lambda>reqs. reply_down)"

text \<open>The environment supplies both tokens.\<close>

definition host_seeded :: host where
  "host_seeded = example_host (Str ''a0'') (Str ''r0'') (\<lambda>reqs. reply_down)"

text \<open>The upstream grants a token and says that it expires in 0 seconds.\<close>

definition host_zero :: host where
  "host_zero = example_host Undefined (Str ''r0'') (\<lambda>reqs. token_reply ''a1'' (Some 0))"

text \<open>The upstream grants a token and says that it expires in 10^13 seconds.\<close>

definition host_far_future :: host where
  "host_far_future =
     example_host Undefined (Str ''r0'') (\<lambda>reqs. token_reply ''a1'' (Some 10000000000000))"


text \<open>
  The search succeeds with one appointment, the lookup of its contact is answered 401, the
  refresh succeeds, and the second search is answered 401.
\<close>

definition host_contact_refused :: host where
  "host_contact_refused =
     example_host (Str ''a0'') (Str ''r0'')
       (scripted [search_reply [review], unauthorized_reply,
                  token_reply ''a1'' (Some 3600), unauthorized_reply])"

text \<open>The search is answered 401, the refresh succeeds, the second search is answered 401.\<close>

definition host_twice_refused :: host where
  "host_twice_refused =
     example_host (Str ''a0'') (Str ''r0'')
       (scripted [unauthorized_reply, token_reply ''a1'' (Some 3600), unauthorized_reply])"

definition world0 :: world where
  "world0 = \<lparr>now = 1700000000000, tokenFile = Missing, sent = []\<rparr>"

definition world_corrupt :: world where
  "world_corrupt = \<lparr>now = 1700000000000, tokenFile = Corrupt, sent = []\<rparr>"

text \<open>A token file whose credential expired ten minutes ago.\<close>

definition expired_record :: persisted where
  "expired_record = \<lparr>p_accessToken = Str ''a0'', p_refreshToken = Str ''r1'',
                      p_tokenExpiry = Some (Valid 1699999400000)\<rparr>"

definition world_expired :: world where
  "world_expired = \<lparr>now = 1700000000000, tokenFile = Tokens expired_record, sent = []\<rparr>"

text \<open>A token file whose \<open>tokenExpiry\<close> is a string that is not a date.\<close>

definition world_bad_expiry :: world where
  "world_bad_expiry =
     \<lparr>now = 1700000000000,
      tokenFile = Tokens \<lparr>p_accessToken = Str ''a0'', p_refreshToken = Str ''r1'',
                          p_tokenExpiry = Some Invalid\<rparr>,
      sent = []\<rparr>"

text \<open>A credential that is good for another hour, one that expires in a minute, and one
  without a refresh token.\<close>

definition tm_fresh :: TokenManager where
  "tm_fresh = \<lparr>accessToken = Str ''a0'', refreshToken = Str ''r0'',
               tokenExpiry = Some (Valid 1700003600000)\<rparr>"

definition tm_stale :: TokenManager where
  "tm_stale = \<lparr>accessToken = Str ''a0'', refreshToken = Str ''r0'',
               tokenExpiry = Some (Valid 1700000060000)\<rparr>"

definition tm_access_only :: TokenManager where
  "tm_access_only = \<lparr>accessToken = Str ''a0'', refreshToken = Null,
                     tokenExpiry = Some (Valid 1700003600000)\<rparr>"

definition standup :: appointment where
  "standup = \<lparr>start = Valid 1699999000000, end_time = Valid 1700000900000, names = [''Ann''],
              room = ''Large'', title_text = Str ''Standup''\<rparr>"

definition planning :: appointment where
  "planning = \<lparr>start = Valid 1700001800000, end_time = Valid 1700005400000, names = [],
               room = ''Small'', title_text = Str ''Planning''\<rparr>"

definition retro :: appointment where
  "retro = \<lparr>start = Valid 1700001800001, end_time = Valid 1700005400000, names = [],
            room = ''Small'', title_text = Str ''Retro''\<rparr>"

lemmas example_defs =
  example_host_def scripted_def reply_down_def unauthorized_reply_def token_reply_def
  search_reply_def review_def world0_def world_corrupt_def expired_record_def world_expired_def
  world_bad_expiry_def tm_fresh_def tm_stale_def tm_access_only_def

lemmas program_defs =
  api_appointments_def getAppointmentsForToday_def authenticatedFetch_def getValidToken_def
  needsRefresh_def new_Date_def maxTime_def fetch_def refreshAccessToken_def refresh_settle_def
  expiresIn_def saveTokens_def js_or_def ok_def initialize_def initialize_catch_def loadTokens_def
  new_TokenManager_def

section \<open>needsRefresh\<close>

lemma needsRefresh_unset: "tokenExpiry s = None \<Longrightarrow> needsRefresh t s"
  by (simp add: needsRefresh_def)

text \<open>
  With an expiry that is a time, and a clock at least five minutes before the end of the
  range of \<^verbatim>\<open>Date\<close>, no refresh is needed exactly when the expiry is strictly more than
  five minutes ahead.
\<close>

lemma needsRefresh_valid:
  assumes "tokenExpiry s = Some (Valid e)" and "- maxTime \<le> t + 300000" and "t + 300000 \<le> maxTime"
  shows "needsRefresh t s \<longleftrightarrow> \<not> t + 5 * 60 * 1000 < e"
  using assms by (auto simp: needsRefresh_def new_Date_def)

text \<open>
  C5. The claim: needsRefresh() is false for a credential whose expiry is strictly more than
  5 minutes after the current time, and true for every other credential. The two lemmas
  above give this for an expiry that is unset or a time. An expiry that is an Invalid Date
  is not more than 5 minutes ahead, and yet needsRefresh() is false for it, at every time
  \<open>t\<close>. The program gets such a credential in two ways: initialize() loads it, without
  refreshing it, from a token file whose \<open>tokenExpiry\<close> is a non-empty string that is not a
  date; and a refresh whose response has an \<open>expires_in\<close> beyond the range of \<^verbatim>\<open>Date\<close>
  stores it before \<^verbatim>\<open>saveTokens\<close> throws.
\<close>

theorem needsRefresh_invalid_date:
  "initialize host_down world_bad_expiry (new_TokenManager host_down) =
     (Inr (), world_bad_expiry,
      \<lparr>accessToken = Str ''a0'', refreshToken = Str ''r1'', tokenExpiry = Some Invalid\<rparr>) \<and>
   refreshAccessToken host_far_future world0 tm_fresh =
     (Inl RangeErr,
      \<lparr>now = 1700000000020, tokenFile = Missing, sent = [RefreshReq ''r0'']\<rparr>,
      \<lparr>accessToken = Str ''a1'', refreshToken = Str ''r0'', tokenExpiry = Some Invalid\<rparr>) \<and>
   needsRefresh t \<lparr>accessToken = a, refreshToken = r, tokenExpiry = Some Invalid\<rparr> = False"
  by (simp add: host_down_def host_far_future_def example_defs program_defs)

section \<open>refreshAccessToken\<close>

lemma saveTokens_ok:
  assumes "saveTokens h w s = (Inr u, w')"
  shows "tokenExpiry s \<noteq> Some Invalid \<and>
         w' = w\<lparr>tokenFile := Tokens \<lparr>p_accessToken = accessToken s,
                   p_refreshToken = refreshToken s, p_tokenExpiry = tokenExpiry s\<rparr>\<rparr>"
  using assms
  by (auto simp: saveTokens_def split: option.splits date.splits)

lemma saveTokens_sent: "saveTokens h w s = (r, w') \<Longrightarrow> sent w' = sent w"
  by (auto simp: saveTokens_def split: option.splits date.splits)

lemma refresh_settle_refused:
  "refused r \<Longrightarrow> \<exists>e. refresh_settle h r w1 s = (Inl e, w1, s)"
  by (auto simp: refused_def refresh_settle_def split: fetch_result.splits)

text \<open>
  C2. A refresh that fails because the transport fails or the upstream answers with a status
  that is not 2xx returns an error to its caller, and leaves the access token, the refresh
  token and the expiry as they were; the token file is not touched either.
\<close>

theorem failed_refresh_keeps_credential:
  assumes "refused (fst (upstream h (sent w @ [RefreshReq (to_string (refreshToken s))])))"
  shows "\<exists>e w1. refreshAccessToken h w s = (Inl e, w1, s) \<and> tokenFile w1 = tokenFile w"
proof (cases "truthy (refreshToken s)")
  case False
  then show ?thesis by (simp add: refreshAccessToken_def)
next
  case True
  let ?req = "RefreshReq (to_string (refreshToken s))"
  obtain r took where u: "upstream h (sent w @ [?req]) = (r, took)"
    by (cases "upstream h (sent w @ [?req])")
  let ?w1 = "w\<lparr>now := now w + int took, sent := sent w @ [?req]\<rparr>"
  from assms u have "refused r" by simp
  then obtain e where "refresh_settle h r ?w1 s = (Inl e, ?w1, s)"
    using refresh_settle_refused by blast
  with True u show ?thesis
    by (simp add: refreshAccessToken_def fetch_def)
qed

theorem failed_refresh_keeps_credential_witness:
  "refreshAccessToken host_down world0 tm_fresh =
     (Inl (RefreshFailed 500 ''down''),
      \<lparr>now = 1700000000020, tokenFile = Missing, sent = [RefreshReq ''r0'']\<rparr>,
      tm_fresh)"
  using failed_refresh_keeps_credential [of host_down world0 tm_fresh]
  by (simp add: refused_def host_down_def example_defs program_defs)

lemma refresh_settle_ok:
  assumes "refresh_settle h r w1 s = (Inr u, w', s')"
  shows "\<exists>st body d. r = Response st body (JsonObj d) \<and> ok st \<and>
           s' = s\<lparr>accessToken := js_or (access_token d) (token d),
                  refreshToken := js_or (refresh_token d) (refreshToken s),
                  tokenExpiry := Some (Valid (now w1 + expiresIn d * 1000))\<rparr> \<and>
           w' = w1\<lparr>tokenFile := Tokens \<lparr>p_accessToken = accessToken s',
                     p_refreshToken = refreshToken s', p_tokenExpiry = tokenExpiry s'\<rparr>\<rparr>"
proof (cases r)
  case (Rejected m)
  with assms show ?thesis by (simp add: refresh_settle_def)
next
  case (Response st body pl)
  show ?thesis
  proof (cases pl)
    case (NotJson m)
    with assms Response show ?thesis by (simp add: refresh_settle_def split: if_splits)
  next
    case JsonNull
    with assms Response show ?thesis by (simp add: refresh_settle_def split: if_splits)
  next
    case (JsonObj d)
    define s1 where "s1 = s\<lparr>accessToken := js_or (access_token d) (token d),
                  refreshToken := js_or (refresh_token d) (refreshToken s),
                  tokenExpiry := Some (new_Date (now w1 + expiresIn d * 1000))\<rparr>"
    from assms Response JsonObj have okst: "ok st"
      by (simp add: refresh_settle_def split: if_splits)
    from assms Response JsonObj okst have sv: "saveTokens h w1 s1 = (Inr (), w') \<and> s' = s1"
      by (auto simp: refresh_settle_def s1_def Let_def split: prod.splits sum.splits)
    from saveTokens_ok [of h w1 s1 "()" w'] sv
    have ne: "tokenExpiry s1 \<noteq> Some Invalid"
      and w': "w' = w1\<lparr>tokenFile := Tokens \<lparr>p_accessToken = accessToken s1,
                   p_refreshToken = refreshToken s1, p_tokenExpiry = tokenExpiry s1\<rparr>\<rparr>"
      by simp_all
    from ne have "new_Date (now w1 + expiresIn d * 1000) = Valid (now w1 + expiresIn d * 1000)"
      by (simp add: s1_def new_Date_def split: if_splits)
    with sv w' okst Response JsonObj show ?thesis
      by (simp add: s1_def)
  qed
qed

text \<open>
  C4, as amended. Every successful refresh sets the expiry to the time at which the response
  has arrived plus \<open>expires_in\<close> seconds, where 3600 is taken when \<open>expires_in\<close> is absent
  or is 0; it replaces the access token (by \<open>access_token\<close>, or by \<open>token\<close> when that one
  is absent or empty); it replaces the refresh token if and only if the response carries a
  non-empty one, and keeps the old one otherwise; and the token file then holds exactly
  this credential.
\<close>

theorem successful_refresh:
  assumes "refreshAccessToken h w s = (Inr u, w', s')"
  shows "\<exists>st body d took.
           upstream h (sent w @ [RefreshReq (to_string (refreshToken s))]) =
             (Response st body (JsonObj d), took) \<and>
           ok st \<and> now w' = now w + int took \<and>
           tokenExpiry s' =
             Some (Valid (now w' + (case expires_in d of
                                      None \<Rightarrow> 3600
                                    | Some n \<Rightarrow> if n = 0 then 3600 else n) * 1000)) \<and>
           accessToken s' = (if truthy (access_token d) then access_token d else token d) \<and>
           refreshToken s' = (if truthy (refresh_token d) then refresh_token d else refreshToken s) \<and>
           tokenFile w' = Tokens \<lparr>p_accessToken = accessToken s',
                     p_refreshToken = refreshToken s', p_tokenExpiry = tokenExpiry s'\<rparr>"
proof -
  let ?req = "RefreshReq (to_string (refreshToken s))"
  from assms have t: "truthy (refreshToken s)"
    by (auto simp: refreshAccessToken_def split: if_splits)
  obtain r took where u: "upstream h (sent w @ [?req]) = (r, took)"
    by (cases "upstream h (sent w @ [?req])")
  define w1 where "w1 = w\<lparr>now := now w + int took, sent := sent w @ [?req]\<rparr>"
  from assms t u have "refresh_settle h r w1 s = (Inr u, w', s')"
    by (simp add: refreshAccessToken_def fetch_def w1_def)
  from refresh_settle_ok [OF this] obtain st body d where
    r: "r = Response st body (JsonObj d)" and st: "ok st" and
    s': "s' = s\<lparr>accessToken := js_or (access_token d) (token d),
                  refreshToken := js_or (refresh_token d) (refreshToken s),
                  tokenExpiry := Some (Valid (now w1 + expiresIn d * 1000))\<rparr>" and
    w': "w' = w1\<lparr>tokenFile := Tokens \<lparr>p_accessToken = accessToken s',
                     p_refreshToken = refreshToken s', p_tokenExpiry = tokenExpiry s'\<rparr>\<rparr>"
    by blast
  have "now w' = now w + int took" and n: "now w1 = now w'"
    by (simp_all add: w' w1_def)
  moreover have "refreshToken s' = (if truthy (refresh_token d) then refresh_token d else refreshToken s)"
    and "accessToken s' = (if truthy (access_token d) then access_token d else token d)"
    by (simp_all add: s' js_or_def)
  moreover have "tokenFile w' = Tokens \<lparr>p_accessToken = accessToken s',
                     p_refreshToken = refreshToken s', p_tokenExpiry = tokenExpiry s'\<rparr>"
    by (simp add: w')
  moreover have "tokenExpiry s' =
             Some (Valid (now w' + (case expires_in d of
                                      None \<Rightarrow> 3600
                                    | Some n \<Rightarrow> if n = 0 then 3600 else n) * 1000))"
    by (simp add: s' n expiresIn_def)
  ultimately show ?thesis
    using u r st by auto
qed

lemma refresh_at_host_zero:
  "refreshAccessToken host_zero world0 tm_fresh =
     (Inr (),
      \<lparr>now = 1700000000020,
       tokenFile = Tokens \<lparr>p_accessToken = Str ''a1'', p_refreshToken = Str ''r0'',
                           p_tokenExpiry = Some (Valid 1700003600020)\<rparr>,
       sent = [RefreshReq ''r0'']\<rparr>,
      \<lparr>accessToken = Str ''a1'', refreshToken = Str ''r0'',
       tokenExpiry = Some (Valid 1700003600020)\<rparr>)"
  by (simp add: host_zero_def example_defs program_defs)

theorem successful_refresh_witness:
  "refreshAccessToken host_zero world0 tm_fresh =
     (Inr (),
      \<lparr>now = 1700000000020,
       tokenFile = Tokens \<lparr>p_accessToken = Str ''a1'', p_refreshToken = Str ''r0'',
                           p_tokenExpiry = Some (Valid 1700003600020)\<rparr>,
       sent = [RefreshReq ''r0'']\<rparr>,
      \<lparr>accessToken = Str ''a1'', refreshToken = Str ''r0'',
       tokenExpiry = Some (Valid 1700003600020)\<rparr>) \<and>
   fst (upstream host_zero [RefreshReq ''r0'']) =
     Response 200 []
       (JsonObj \<lparr>access_token = Str ''a1'', token = Undefined, refresh_token = Undefined,
                 expires_in = Some 0, results = None, first_name = Undefined\<rparr>)"
  using successful_refresh [OF refresh_at_host_zero] refresh_at_host_zero
  by (simp add: host_zero_def example_host_def token_reply_def)

text \<open>
  The claim as it stands fails when the response says \<open>expires_in: 0\<close>: the refresh
  completes at 1700000000020 and the expiry is an hour later, not 0 seconds later.
\<close>

theorem expires_in_zero_counterexample:
  "fst (refreshAccessToken host_zero world0 tm_fresh) = Inr () \<and>
   fst (upstream host_zero (sent world0 @ [RefreshReq (to_string (refreshToken tm_fresh))])) =
     Response 200 []
       (JsonObj \<lparr>access_token = Str ''a1'', token = Undefined, refresh_token = Undefined,
                 expires_in = Some 0, results = None, first_name = Undefined\<rparr>) \<and>
   now (fst (snd (refreshAccessToken host_zero world0 tm_fresh))) = 1700000000020 \<and>
   tokenExpiry (snd (snd (refreshAccessToken host_zero world0 tm_fresh))) =
     Some (Valid (1700000000020 + 3600 * 1000)) \<and>
   tokenExpiry (snd (snd (refreshAccessToken host_zero world0 tm_fresh))) \<noteq>
     Some (Valid (1700000000020 + 0 * 1000))"
  by (simp add: host_zero_def example_defs program_defs)


section \<open>Saving and loading\<close>

text \<open>
  C6, as amended. When a credential has been saved, loading it in a new process (a new
  TokenManager, on a host \<open>h'\<close> that may have another environment) gives back its access
  token and its expiry; the refresh token is the saved one when that is a non-empty string,
  and otherwise the one of the new environment (\<^verbatim>\<open>null\<close> when there is none). So the
  credential comes back equal in all fields exactly when it has a refresh token, or when it
  has \<^verbatim>\<open>null\<close> for one and the environment supplies none.
\<close>

theorem save_then_load:
  assumes "saveTokens h w s = (Inr u, w')"
  shows "\<exists>p. tokenFile w' = Tokens p \<and>
           loadTokens p (new_TokenManager h') =
             s\<lparr>refreshToken := (if truthy (refreshToken s) then refreshToken s
                                else if truthy (DAYLITE_REFRESH_TOKEN h') then DAYLITE_REFRESH_TOKEN h'
                                else Null)\<rparr>"
  using saveTokens_ok [OF assms]
  by (simp add: loadTokens_def new_TokenManager_def js_or_def)

lemma save_access_only:
  "saveTokens host_down world0 tm_access_only =
     (Inr (), world0\<lparr>tokenFile := Tokens \<lparr>p_accessToken = Str ''a0'', p_refreshToken = Null,
        p_tokenExpiry = Some (Valid 1700003600000)\<rparr>\<rparr>)"
  by (simp add: saveTokens_def host_down_def example_host_def tm_access_only_def)

theorem save_then_load_witness:
  "saveTokens host_down world0 tm_access_only =
     (Inr (), world0\<lparr>tokenFile := Tokens \<lparr>p_accessToken = Str ''a0'', p_refreshToken = Null,
        p_tokenExpiry = Some (Valid 1700003600000)\<rparr>\<rparr>) \<and>
   loadTokens \<lparr>p_accessToken = Str ''a0'', p_refreshToken = Null,
        p_tokenExpiry = Some (Valid 1700003600000)\<rparr> (new_TokenManager host_bare) = tm_access_only"
  using save_then_load [OF save_access_only, of host_bare] save_access_only
  by (simp add: host_bare_def example_host_def tm_access_only_def)

text \<open>
  The claim as it stands fails for a credential without a refresh token (one seeded from
  \<^verbatim>\<open>DAYLITE_ACCESS_TOKEN\<close> alone) when the process that loads it has
  \<^verbatim>\<open>DAYLITE_REFRESH_TOKEN\<close> set: the loaded refresh token is the environment's.
\<close>

theorem save_then_load_counterexample:
  "fst (saveTokens host_bare world0 tm_access_only) = Inr () \<and>
   tokenFile (snd (saveTokens host_bare world0 tm_access_only)) =
     Tokens \<lparr>p_accessToken = Str ''a0'', p_refreshToken = Null,
             p_tokenExpiry = Some (Valid 1700003600000)\<rparr> \<and>
   loadTokens \<lparr>p_accessToken = Str ''a0'', p_refreshToken = Null,
               p_tokenExpiry = Some (Valid 1700003600000)\<rparr> (new_TokenManager host_down)
     \<noteq> tm_access_only \<and>
   refreshToken (loadTokens \<lparr>p_accessToken = Str ''a0'', p_refreshToken = Null,
               p_tokenExpiry = Some (Valid 1700003600000)\<rparr> (new_TokenManager host_down))
     = Str ''r0''"
  by (simp add: saveTokens_def host_down_def host_bare_def example_host_def tm_access_only_def
      world0_def loadTokens_def new_TokenManager_def js_or_def)

section \<open>initialize\<close>

text \<open>
  C7. When no persisted credential is available (the token file cannot be read or parsed)
  and the environment supplies neither an access token nor a refresh token, initialize()
  fails with the "No tokens available" error, and startServer exits with status 1 instead
  of listening.
\<close>

theorem no_tokens_aborts_startup:
  assumes "tokenFile w = Missing \<or> tokenFile w = Corrupt"
    and "\<not> truthy (DAYLITE_ACCESS_TOKEN h)" and "\<not> truthy (DAYLITE_REFRESH_TOKEN h)"
  shows "initialize h w (new_TokenManager h) = (Inl NoTokensAvailable, w, new_TokenManager h) \<and>
         startServer h w = Exited 1"
proof -
  have "\<not> truthy (refreshToken (new_TokenManager h))"
    using assms(3) by (simp add: new_TokenManager_def js_or_def)
  with assms(2)
  have "initialize_catch h w (new_TokenManager h) = (Inl NoTokensAvailable, w, new_TokenManager h)"
    by (simp add: initialize_catch_def)
  with assms(1)
  have "initialize h w (new_TokenManager h) = (Inl NoTokensAvailable, w, new_TokenManager h)"
    by (auto simp: initialize_def)
  then show ?thesis by (simp add: startServer_def)
qed

theorem no_tokens_aborts_startup_witness:
  "initialize host_bare world0 (new_TokenManager host_bare) =
     (Inl NoTokensAvailable, world0, new_TokenManager host_bare) \<and>
   startServer host_bare world0 = Exited 1"
  using no_tokens_aborts_startup [of world0 host_bare]
  by (simp add: world0_def host_bare_def example_host_def)

text \<open>
  C8, as amended. For every corrupt or unreadable token file the read or parse error is not
  propagated: initialize() does what its \<^verbatim>\<open>catch\<close> block does on the new TokenManager.
  With an access token in the environment it seeds the credential from the environment
  (expiry one hour ahead), persists it, and returns without raising, provided the write
  succeeds; with only a refresh token in the environment its outcome is that of an immediate
  refresh, whose failure it raises; with neither it raises the "No tokens available" error.
\<close>

theorem corrupt_record_falls_back:
  assumes "tokenFile w = Missing \<or> tokenFile w = Corrupt"
  shows "initialize h w (new_TokenManager h) = initialize_catch h w (new_TokenManager h) \<and>
         (truthy (DAYLITE_ACCESS_TOKEN h) \<longrightarrow> write_error h = None \<longrightarrow>
            - maxTime \<le> now w + 3600000 \<longrightarrow> now w + 3600000 \<le> maxTime \<longrightarrow>
          initialize h w (new_TokenManager h) =
            (Inr (),
             w\<lparr>tokenFile := Tokens
                 \<lparr>p_accessToken = DAYLITE_ACCESS_TOKEN h,
                  p_refreshToken = js_or (DAYLITE_REFRESH_TOKEN h) Null,
                  p_tokenExpiry = Some (Valid (now w + 3600000))\<rparr>\<rparr>,
             \<lparr>accessToken = DAYLITE_ACCESS_TOKEN h,
              refreshToken = js_or (DAYLITE_REFRESH_TOKEN h) Null,
              tokenExpiry = Some (Valid (now w + 3600000))\<rparr>)) \<and>
         (\<not> truthy (DAYLITE_ACCESS_TOKEN h) \<longrightarrow> truthy (DAYLITE_REFRESH_TOKEN h) \<longrightarrow>
          initialize h w (new_TokenManager h) = refreshAccessToken h w (new_TokenManager h)) \<and>
         (\<not> truthy (DAYLITE_ACCESS_TOKEN h) \<longrightarrow> \<not> truthy (DAYLITE_REFRESH_TOKEN h) \<longrightarrow>
          initialize h w (new_TokenManager h) = (Inl NoTokensAvailable, w, new_TokenManager h))"
proof -
  have c: "initialize h w (new_TokenManager h) = initialize_catch h w (new_TokenManager h)"
    using assms by (auto simp: initialize_def)
  have "truthy (DAYLITE_ACCESS_TOKEN h) \<longrightarrow> write_error h = None \<longrightarrow>
            - maxTime \<le> now w + 3600000 \<longrightarrow> now w + 3600000 \<le> maxTime \<longrightarrow>
          initialize_catch h w (new_TokenManager h) =
            (Inr (),
             w\<lparr>tokenFile := Tokens
                 \<lparr>p_accessToken = DAYLITE_ACCESS_TOKEN h,
                  p_refreshToken = js_or (DAYLITE_REFRESH_TOKEN h) Null,
                  p_tokenExpiry = Some (Valid (now w + 3600000))\<rparr>\<rparr>,
             \<lparr>accessToken = DAYLITE_ACCESS_TOKEN h,
              refreshToken = js_or (DAYLITE_REFRESH_TOKEN h) Null,
              tokenExpiry = Some (Valid (now w + 3600000))\<rparr>)"
    by (simp add: initialize_catch_def saveTokens_def new_Date_def new_TokenManager_def)
  moreover
  have "\<not> truthy (DAYLITE_ACCESS_TOKEN h) \<longrightarrow> truthy (DAYLITE_REFRESH_TOKEN h) \<longrightarrow>
          initialize_catch h w (new_TokenManager h) = refreshAccessToken h w (new_TokenManager h)"
    by (simp add: initialize_catch_def new_TokenManager_def js_or_def)
  moreover
  have "\<not> truthy (DAYLITE_ACCESS_TOKEN h) \<longrightarrow> \<not> truthy (DAYLITE_REFRESH_TOKEN h) \<longrightarrow>
          initialize_catch h w (new_TokenManager h) = (Inl NoTokensAvailable, w, new_TokenManager h)"
    by (simp add: initialize_catch_def new_TokenManager_def js_or_def)
  ultimately show ?thesis
    unfolding c by blast
qed

theorem corrupt_record_falls_back_witness:
  "initialize host_seeded world_corrupt (new_TokenManager host_seeded) =
     (Inr (),
      \<lparr>now = 1700000000000,
       tokenFile = Tokens \<lparr>p_accessToken = Str ''a0'', p_refreshToken = Str ''r0'',
                           p_tokenExpiry = Some (Valid 1700003600000)\<rparr>,
       sent = []\<rparr>,
      \<lparr>accessToken = Str ''a0'', refreshToken = Str ''r0'',
       tokenExpiry = Some (Valid 1700003600000)\<rparr>)"
proof -
  have f: "tokenFile world_corrupt = Missing \<or> tokenFile world_corrupt = Corrupt"
    by (simp add: world_corrupt_def)
  from corrupt_record_falls_back [OF f, of host_seeded, THEN conjunct2, THEN conjunct1]
  show ?thesis
    by (simp add: world_corrupt_def host_seeded_def example_host_def js_or_def maxTime_def)
qed

text \<open>
  The claim as it stands fails when the environment supplies only a refresh token and the
  upstream refuses the refresh: initialize() raises.
\<close>

theorem corrupt_record_counterexample:
  "tokenFile world_corrupt = Corrupt \<and>
   DAYLITE_REFRESH_TOKEN host_down = Str ''r0'' \<and>
   fst (initialize host_down world_corrupt (new_TokenManager host_down)) =
     Inl (RefreshFailed 500 ''down'')"
  by (simp add: host_down_def example_defs program_defs)

text \<open>
  C10. When initialize() has loaded a persisted credential and the refresh that this
  credential needs fails, the failure is not propagated: initialize() goes on with its
  \<^verbatim>\<open>catch\<close> block, from the state the failed refresh left. With an access token in the
  environment it overwrites the loaded access token and expiry with the environment's seed
  and saves; otherwise, with a refresh token at hand, its outcome is that of a second
  refresh; otherwise it raises the "No tokens available" error, and then the environment
  supplies no refresh token either.
\<close>

theorem failed_refresh_after_load:
  assumes "tokenFile w = Tokens p"
    and "needsRefresh (now w) (loadTokens p (new_TokenManager h))"
    and "refreshAccessToken h w (loadTokens p (new_TokenManager h)) = (Inl e, w1, s1)"
  shows "initialize h w (new_TokenManager h) =
           (if truthy (DAYLITE_ACCESS_TOKEN h)
            then (case saveTokens h w1
                         (s1\<lparr>accessToken := DAYLITE_ACCESS_TOKEN h,
                             tokenExpiry := Some (new_Date (now w1 + 3600000))\<rparr>) of
                    (r, w2) \<Rightarrow>
                      (r, w2, s1\<lparr>accessToken := DAYLITE_ACCESS_TOKEN h,
                                 tokenExpiry := Some (new_Date (now w1 + 3600000))\<rparr>))
            else if truthy (refreshToken s1) then refreshAccessToken h w1 s1
            else (Inl NoTokensAvailable, w1, s1)) \<and>
         (\<not> truthy (refreshToken s1) \<longrightarrow> \<not> truthy (DAYLITE_REFRESH_TOKEN h))"
proof -
  let ?s0 = "loadTokens p (new_TokenManager h)"
  have "initialize h w (new_TokenManager h) = initialize_catch h w1 s1"
    using assms by (simp add: initialize_def)
  then have a: "initialize h w (new_TokenManager h) =
           (if truthy (DAYLITE_ACCESS_TOKEN h)
            then (case saveTokens h w1
                         (s1\<lparr>accessToken := DAYLITE_ACCESS_TOKEN h,
                             tokenExpiry := Some (new_Date (now w1 + 3600000))\<rparr>) of
                    (r, w2) \<Rightarrow>
                      (r, w2, s1\<lparr>accessToken := DAYLITE_ACCESS_TOKEN h,
                                 tokenExpiry := Some (new_Date (now w1 + 3600000))\<rparr>))
            else if truthy (refreshToken s1) then refreshAccessToken h w1 s1
            else (Inl NoTokensAvailable, w1, s1))"
    by (auto simp: initialize_catch_def Let_def split: prod.splits sum.splits)
  have b: "\<not> truthy (refreshToken s1) \<longrightarrow> \<not> truthy (DAYLITE_REFRESH_TOKEN h)"
  proof (cases "truthy (refreshToken ?s0)")
    case False
    then show ?thesis
      by (auto simp: loadTokens_def new_TokenManager_def js_or_def split: if_splits)
  next
    case True
    obtain r took where u: "upstream h (sent w @ [RefreshReq (to_string (refreshToken ?s0))]) = (r, took)"
      by (cases "upstream h (sent w @ [RefreshReq (to_string (refreshToken ?s0))])")
    from assms(3) True u have "truthy (refreshToken s1)"
      by (auto simp: refreshAccessToken_def fetch_def refresh_settle_def js_or_def Let_def
          split: fetch_result.splits if_splits payload.splits prod.splits sum.splits)
    then show ?thesis by simp
  qed
  from a b show ?thesis by blast
qed

lemma refresh_of_expired_record:
  "refreshAccessToken host_down world_expired (loadTokens expired_record (new_TokenManager host_down)) =
     (Inl (RefreshFailed 500 ''down''),
      \<lparr>now = 1700000000020, tokenFile = Tokens expired_record, sent = [RefreshReq ''r1'']\<rparr>,
      \<lparr>accessToken = Str ''a0'', refreshToken = Str ''r1'',
       tokenExpiry = Some (Valid 1699999400000)\<rparr>)"
  by (simp add: host_down_def example_defs program_defs)

theorem failed_refresh_after_load_witness:
  "initialize host_down world_expired (new_TokenManager host_down) =
     (Inl (RefreshFailed 500 ''down''),
      \<lparr>now = 1700000000040, tokenFile = Tokens expired_record,
       sent = [RefreshReq ''r1'', RefreshReq ''r1'']\<rparr>,
      \<lparr>accessToken = Str ''a0'', refreshToken = Str ''r1'',
       tokenExpiry = Some (Valid 1699999400000)\<rparr>)"
  using failed_refresh_after_load [OF _ _ refresh_of_expired_record]
  by (simp add: host_down_def example_defs program_defs)

section \<open>The relevance filter keeps the relevant appointments\<close>

lemma truncate_decorate: "appointment.truncate (decorate fmt t a) = a"
  by (simp add: decorate_def appointment.truncate_def appointment.extend_def Let_def)

lemma relevant_iff:
  assumes "- maxTime \<le> t" and "t + 1800000 \<le> maxTime"
  shows "(startsWithin30Min t a \<or> currentlyInProgress t a) = relevant t a"
  using assms
  by (cases "start a"; cases "end_time a")
     (auto simp: startsWithin30Min_def currentlyInProgress_def relevant_def date_gt_def new_Date_def)

text \<open>
  C9. The filter is a function of the appointment list and of the clock alone (the model
  gives it no state and no world to change). At every clock reading \<open>t\<close> of the range of
  \<^verbatim>\<open>Date\<close> that is at least 30 minutes before its end, the appointments of the output,
  without the display fields that the output adds, are exactly the relevant appointments
  of the input, in the order of the input.
\<close>

theorem filter_keeps_relevant:
  assumes "- maxTime \<le> t" and "t + 1800000 \<le> maxTime"
  shows "map appointment.truncate (filterRelevantAppointments fmt t later appts) =
           filter (relevant t) appts"
proof -
  let ?keep = "\<lambda>a. startsWithin30Min t a \<or> currentlyInProgress t a"
  have "map appointment.truncate (filterRelevantAppointments fmt t later appts)
        = map snd (enumerate 0 (filter ?keep appts))"
    by (simp add: filterRelevantAppointments_def truncate_decorate case_prod_unfold comp_def)
  also have "\<dots> = filter ?keep appts"
    by simp
  also have "\<dots> = filter (relevant t) appts"
    using relevant_iff [OF assms] by simp
  finally show ?thesis .
qed

theorem filter_keeps_relevant_witness:
  "map appointment.truncate
     (filterRelevantAppointments (\<lambda>d. []) 1700000000000 (\<lambda>i. 1700000000000)
        [standup, planning, retro]) = [standup, planning]"
  using filter_keeps_relevant [of 1700000000000 "\<lambda>d. []" "\<lambda>i. 1700000000000" "[standup, planning, retro]"]
  by (simp add: maxTime_def relevant_def standup_def planning_def retro_def)


section \<open>The retry after a 401\<close>

lemma refresh_settle_sent:
  "refresh_settle h r w1 s = (res, w2, s2) \<Longrightarrow> sent w2 = sent w1"
  by (auto simp: refresh_settle_def Let_def dest: saveTokens_sent
      split: fetch_result.splits if_splits payload.splits prod.splits sum.splits)

lemma refreshAccessToken_sent:
  assumes "refreshAccessToken h w s = (res, w2, s2)"
  shows "sent w2 =
           (if truthy (refreshToken s) then sent w @ [RefreshReq (to_string (refreshToken s))]
            else sent w)"
proof (cases "truthy (refreshToken s)")
  case False
  with assms show ?thesis by (simp add: refreshAccessToken_def)
next
  case True
  let ?req = "RefreshReq (to_string (refreshToken s))"
  obtain r took where u: "upstream h (sent w @ [?req]) = (r, took)"
    by (cases "upstream h (sent w @ [?req])")
  with assms True
  have "refresh_settle h r (w\<lparr>now := now w + int took, sent := sent w @ [?req]\<rparr>) s = (res, w2, s2)"
    by (simp add: refreshAccessToken_def fetch_def)
  from refresh_settle_sent [OF this] True show ?thesis by simp
qed

lemma refreshAccessToken_searches:
  "refreshAccessToken h w s = (res, w2, s2) \<Longrightarrow> searches w2 = searches w"
  by (drule refreshAccessToken_sent) (simp add: searches_def)

lemma getValidToken_searches:
  "getValidToken h w s = (res, w2, s2) \<Longrightarrow> searches w2 = searches w"
  by (auto simp: getValidToken_def split: if_splits prod.splits sum.splits
      dest: refreshAccessToken_searches)

lemma fetch_searches:
  "fetch h w req = (r, w2) \<Longrightarrow> searches w2 = searches w + (if is_search req then 1 else 0)"
  by (auto simp: fetch_def searches_def split: prod.splits)

lemma authenticatedFetch_searches:
  assumes "authenticatedFetch h w s mk = (res, w2, s2)"
  shows "searches w2 \<le> searches w + 1"
    and "(\<forall>tok. \<not> is_search (mk tok)) \<Longrightarrow> searches w2 = searches w"
  using assms
  by (auto simp: authenticatedFetch_def
      split: prod.splits sum.splits fetch_result.splits if_splits
      dest!: getValidToken_searches fetch_searches)

lemma contact_names_searches:
  "contact_names h cs w s acc = (res, w2, s2) \<Longrightarrow> searches w2 = searches w"
proof (induction cs arbitrary: w s acc)
  case Nil
  then show ?case by simp
next
  case (Cons c cs)
  show ?case
  proof (cases "truthy c")
    case False
    with Cons show ?thesis by simp
  next
    case True
    obtain r w1 s1 where a: "authenticatedFetch h w s (ContactReq (to_string c)) = (r, w1, s1)"
      by (cases "authenticatedFetch h w s (ContactReq (to_string c))")
    have w1: "searches w1 = searches w"
      using authenticatedFetch_searches(2) [OF a] by simp
    from Cons.prems True a w1 show ?thesis
      by (auto split: sum.splits payload.splits prod.splits dest: Cons.IH)
  qed
qed

lemma collect_searches:
  "collect h as w s acc = (res, w2, s2) \<Longrightarrow> searches w2 = searches w"
proof (induction as arbitrary: w s acc)
  case Nil
  then show ?case by simp
next
  case (Cons a as)
  show ?case
  proof (cases "resources a")
    case None
    with Cons.prems show ?thesis by simp
  next
    case (Some rs)
    let ?cs = "case contacts a of None \<Rightarrow> [] | Some cs \<Rightarrow> cs"
    obtain r w1 s1 where c: "contact_names h ?cs w s [] = (r, w1, s1)"
      by (cases "contact_names h ?cs w s []")
    from contact_names_searches [OF c] have w1: "searches w1 = searches w" .
    from Cons.prems Some c w1 show ?thesis
      by (auto simp: Let_def split: sum.splits dest: Cons.IH)
  qed
qed

lemma getAppointmentsForToday_searches:
  assumes "getAppointmentsForToday h w s = (res, w2, s2)"
  shows "searches w2 \<le> searches w + 1"
proof -
  let ?mk = "\<lambda>tok. SearchReq tok (now w - now w mod 86400000) (now w - now w mod 86400000 + 86399999)"
  obtain r w1 s1 where a: "authenticatedFetch h w s ?mk = (r, w1, s1)"
    by (cases "authenticatedFetch h w s ?mk")
  have w1: "searches w1 \<le> searches w + 1"
    using authenticatedFetch_searches(1) [OF a] .
  from assms a w1 show ?thesis
    by (auto simp: getAppointmentsForToday_def Let_def
        split: sum.splits payload.splits prod.splits dest: collect_searches)
qed

lemma api_appointments_searches:
  "searches (fst (snd (api_appointments h w s))) \<le> searches w + 2"
proof -
  obtain r1 w1 s1 where g1: "getAppointmentsForToday h w s = (r1, w1, s1)"
    by (cases "getAppointmentsForToday h w s")
  obtain r2 w2 s2 where rf: "refreshAccessToken h w1 s1 = (r2, w2, s2)"
    by (cases "refreshAccessToken h w1 s1")
  obtain r3 w3 s3 where g2: "getAppointmentsForToday h w2 s2 = (r3, w3, s3)"
    by (cases "getAppointmentsForToday h w2 s2")
  have 1: "searches w1 \<le> searches w + 1" using getAppointmentsForToday_searches [OF g1] .
  have 2: "searches w2 = searches w1" using refreshAccessToken_searches [OF rf] .
  have 3: "searches w3 \<le> searches w2 + 1" using getAppointmentsForToday_searches [OF g2] .
  show ?thesis
    using g1 rf g2 1 2 3
    by (auto simp: api_appointments_def split: sum.splits)
qed

lemma message_Unauthorized:
  "message Unauthorized \<noteq> [] \<and> str_includes (message Unauthorized) ''401''"
  by simp

text \<open>
  C3, as amended. \<^verbatim>\<open>authenticatedFetch\<close> itself neither refreshes nor retries on a 401: it
  throws, having sent the request once, and leaves the TokenManager as \<^verbatim>\<open>getValidToken\<close>
  left it (the last part of the theorem). When a run of the appointment fetch ends so, because its search or one of its
  contact lookups was answered 401, the route handler forces exactly one
  \<^verbatim>\<open>refreshAccessToken()\<close> (not \<^verbatim>\<open>getValidToken()\<close>, so the refresh request is sent
  whatever the expiry says) and then runs the whole appointment fetch once more, from its
  search request on. If the forced refresh fails, or the second run fails in any way, the
  handler answers 500. There is no third run: the handler sends at most two search
  requests.
\<close>

theorem unauthorized_retry:
  assumes "getAppointmentsForToday h w s = (Inl Unauthorized, w1, s1)"
  shows "api_appointments h w s =
           (case refreshAccessToken h w1 s1 of
              (Inl e2, w2, s2) \<Rightarrow> (Json500, w2, s2)
            | (Inr u, w2, s2) \<Rightarrow>
                (case getAppointmentsForToday h w2 s2 of
                   (Inl e3, w3, s3) \<Rightarrow> (Json500, w3, s3)
                 | (Inr appts, w3, s3) \<Rightarrow>
                     (Json200 (filterRelevantAppointments (toLocaleTimeString h) (now w3)
                                 (\<lambda>i. now w3) appts), w3, s3))) \<and>
         (truthy (refreshToken s1) \<longrightarrow>
            sent (fst (snd (refreshAccessToken h w1 s1))) =
              sent w1 @ [RefreshReq (to_string (refreshToken s1))]) \<and>
         searches (fst (snd (api_appointments h w s))) \<le> searches w + 2 \<and>
         (getValidToken h wa sa = (Inr tok, wb, sb) \<longrightarrow>
          fst (upstream h (sent wb @ [mk tok])) = Response 401 body pl \<longrightarrow>
            (\<exists>wc. authenticatedFetch h wa sa mk = (Inl Unauthorized, wc, sb) \<and>
                  sent wc = sent wb @ [mk tok] \<and> tokenFile wc = tokenFile wb))"
proof -
  have a: "api_appointments h w s =
           (case refreshAccessToken h w1 s1 of
              (Inl e2, w2, s2) \<Rightarrow> (Json500, w2, s2)
            | (Inr u, w2, s2) \<Rightarrow>
                (case getAppointmentsForToday h w2 s2 of
                   (Inl e3, w3, s3) \<Rightarrow> (Json500, w3, s3)
                 | (Inr appts, w3, s3) \<Rightarrow>
                     (Json200 (filterRelevantAppointments (toLocaleTimeString h) (now w3)
                                 (\<lambda>i. now w3) appts), w3, s3)))"
    using assms message_Unauthorized by (simp add: api_appointments_def)
  obtain r2 w2 s2 where rf: "refreshAccessToken h w1 s1 = (r2, w2, s2)"
    by (cases "refreshAccessToken h w1 s1")
  have b: "truthy (refreshToken s1) \<longrightarrow>
            sent (fst (snd (refreshAccessToken h w1 s1))) =
              sent w1 @ [RefreshReq (to_string (refreshToken s1))]"
    using refreshAccessToken_sent [OF rf] rf by simp
  have c: "getValidToken h wa sa = (Inr tok, wb, sb) \<longrightarrow>
          fst (upstream h (sent wb @ [mk tok])) = Response 401 body pl \<longrightarrow>
            (\<exists>wc. authenticatedFetch h wa sa mk = (Inl Unauthorized, wc, sb) \<and>
                  sent wc = sent wb @ [mk tok] \<and> tokenFile wc = tokenFile wb)"
    by (cases "upstream h (sent wb @ [mk tok])") (simp add: authenticatedFetch_def fetch_def)
  from a b c api_appointments_searches [of h w s] show ?thesis by blast
qed

lemma first_run_refused:
  "getAppointmentsForToday host_twice_refused world0 tm_fresh =
     (Inl Unauthorized,
      \<lparr>now = 1700000000020, tokenFile = Missing,
       sent = [SearchReq ''Bearer a0'' 1699920000000 1700006399999]\<rparr>, tm_fresh)"
  by (simp add: host_twice_refused_def example_defs program_defs)

theorem unauthorized_retry_witness:
  "api_appointments host_twice_refused world0 tm_fresh =
     (Json500,
      \<lparr>now = 1700000000060,
       tokenFile = Tokens \<lparr>p_accessToken = Str ''a1'', p_refreshToken = Str ''r0'',
                           p_tokenExpiry = Some (Valid 1700003600040)\<rparr>,
       sent = [SearchReq ''Bearer a0'' 1699920000000 1700006399999,
               RefreshReq ''r0'',
               SearchReq ''Bearer a1'' 1699920000000 1700006399999]\<rparr>,
      \<lparr>accessToken = Str ''a1'', refreshToken = Str ''r0'',
       tokenExpiry = Some (Valid 1700003600040)\<rparr>)"
  using unauthorized_retry [OF first_run_refused]
  by (simp add: host_twice_refused_def example_defs program_defs)

text \<open>
  The claim as it stands fails for a request other than the search: here the lookup of a
  contact is the request that is answered 401. It is sent once and never again, because
  the retry starts the appointment fetch over and the second search is refused; the search
  request, whose first answer was 200, is the one sent twice.
\<close>

theorem contact_refused_counterexample:
  "api_appointments host_contact_refused world0 tm_fresh =
     (Json500,
      \<lparr>now = 1700000000080,
       tokenFile = Tokens \<lparr>p_accessToken = Str ''a1'', p_refreshToken = Str ''r0'',
                           p_tokenExpiry = Some (Valid 1700003600060)\<rparr>,
       sent = [SearchReq ''Bearer a0'' 1699920000000 1700006399999,
               ContactReq ''/v1/contacts/7'' ''Bearer a0'',
               RefreshReq ''r0'',
               SearchReq ''Bearer a1'' 1699920000000 1700006399999]\<rparr>,
      \<lparr>accessToken = Str ''a1'', refreshToken = Str ''r0'',
       tokenExpiry = Some (Valid 1700003600060)\<rparr>) \<and>
   fst (upstream host_contact_refused
          [SearchReq ''Bearer a0'' 1699920000000 1700006399999,
           ContactReq ''/v1/contacts/7'' ''Bearer a0'']) =
     Response 401 ''Unauthorized'' (NotJson ''Unexpected token U'')"
  by (simp add: host_contact_refused_def example_defs program_defs)

section \<open>Calls that overlap each send their own refresh\<close>

lemmas event_defs = on_call_def on_arrive_def on_body_def on_written_def

text \<open>
  A call that runs alone, each of its waits ending in turn, is \<^verbatim>\<open>getValidToken\<close> as defined
  above: same result, same world, same TokenManager.
\<close>

lemma single_call:
  "run h (idle s w) [Call, Arrive 0, Body 0, Written 0] =
     (case getValidToken h w s of
        (res, w', s') \<Rightarrow> \<lparr>manager = s', wld = w', calls = [Finished res]\<rparr>)"
proof (cases "needsRefresh (now w) s \<and> truthy (refreshToken s)")
  case False
  then show ?thesis
    by (auto simp: run_def idle_def on_call_def getValidToken_def refreshAccessToken_def)
next
  case True
  let ?req = "RefreshReq (to_string (refreshToken s))"
  obtain r took where u: "upstream h (sent w @ [?req]) = (r, took)"
    by (cases "upstream h (sent w @ [?req])")
  have m: "max (now w) (now w + int took) = now w + int took"
    by simp
  show ?thesis
  proof (cases r)
    case (Rejected msg)
    with True u m show ?thesis
      by (simp add: run_def idle_def event_defs getValidToken_def refreshAccessToken_def
          fetch_def refresh_settle_def)
  next
    case (Response st body pl)
    show ?thesis
    proof (cases "ok st")
      case False
      with True u m Response show ?thesis
        by (simp add: run_def idle_def event_defs getValidToken_def refreshAccessToken_def
            fetch_def refresh_settle_def)
    next
      case okst: True
      show ?thesis
      proof (cases pl)
        case (NotJson msg)
        with True u m Response okst show ?thesis
          by (simp add: run_def idle_def event_defs getValidToken_def refreshAccessToken_def
              fetch_def refresh_settle_def)
      next
        case JsonNull
        with True u m Response okst show ?thesis
          by (simp add: run_def idle_def event_defs getValidToken_def refreshAccessToken_def
              fetch_def refresh_settle_def)
      next
        case (JsonObj d)
        with True u m Response okst show ?thesis
          by (simp add: run_def idle_def event_defs getValidToken_def refreshAccessToken_def
              fetch_def refresh_settle_def saveTokens_def Let_def
              split: option.splits date.splits)
      qed
    qed
  qed
qed









end
